theory Spec2Isabelle
  imports Main
begin

section \<open>CloudStorm: the gateway connector (src/connector/DiscordConnector.ts)\<close>

text \<open>
  The class \<^verbatim>\<open>DiscordConnector\<close> is embedded as a record of its fields together with
  the part of the world its methods act on: the ordered log of everything a method emits
  or asks of the transport (\<open>out\<close>), the suspended \<^verbatim>\<open>_reconnect\<close> calls that wait at
  their \<^verbatim>\<open>await\<close> (\<open>pending\<close>), and the objects of the activity arrays (\<open>heap\<close>).
  Each method is a function from the state to the state. \<^verbatim>\<open>Date.now()\<close>, the transport's
  \<^verbatim>\<open>status\<close> and \<^verbatim>\<open>process.platform\<close> are read from an environment that is
  passed with every call. Numbers are integers. The methods \<^verbatim>\<open>voiceStateUpdate\<close> and
  \<^verbatim>\<open>requestGuildMembers\<close> and their payload checks touch no field of the connector
  and are left out.
\<close>

subsection \<open>Data\<close>

datatype conn_status = Connecting | Identifying | Resuming | Ready | Disconnected

text \<open>
  The payload \<^verbatim>\<open>d\<close> of a gateway message has type \<^verbatim>\<open>any\<close>. The connector observes
  four things of it: whether it is null or undefined (a property read then throws a
  TypeError), its truthiness, and its properties \<^verbatim>\<open>heartbeat_interval\<close> (a number),
  \<^verbatim>\<open>_trace\<close> and \<^verbatim>\<open>session_id\<close> (\<open>None\<close> when absent or null).
\<close>

datatype payload =
    DNull
  | DVal (d_truthy: bool) (heartbeat_interval: int) (d_trace: "string option")
      (session_id: "string option")

record message =
  op :: int
  d :: payload
  s :: "int option"
  t :: "string option"

record activity =
  a_name :: "string option"
  a_type :: "int option"
  a_url :: "string option"

text \<open>
  A presence update as the caller passes it: every field may be missing. The activities
  are references to activity objects on the heap; \<open>None\<close> is a missing field or a value
  that is not an array.
\<close>

record presence =
  p_status :: "string option"
  p_activities :: "nat list option"
  p_afk :: "bool option"
  p_since :: "int option"

text \<open>What is handed to the transport: the presence with its activities read off the heap.\<close>

record presence_sent =
  ps_status :: "string option"
  ps_activities :: "activity list"
  ps_afk :: "bool option"
  ps_since :: "int option"

record identify_payload =
  i_token :: string
  i_os :: string
  i_browser :: string
  i_device :: string
  i_large_threshold :: "int option"
  i_shard :: "int \<times> int"
  i_intents :: int
  i_presence :: "presence_sent option"

datatype outgoing =
    OutHeartbeat int
  | OutIdentify identify_payload
  | OutPresenceUpdate presence_sent
  | OutResume int string "string option"

datatype debug_note =
    DbgConnecting int
  | DbgInvalidSequence int int int
  | DbgAskedToReconnect int
  | DbgHello int
  | DbgNoAck int int
  | DbgIdentifyNotOpen
  | DbgIdentifying int
  | DbgResumeNotOpen
  | DbgResuming int
  | DbgHeartbeatNotOpen

datatype error = TypeError

datatype effect =
    ClientDebug debug_note
  | ClientError string
  | RawReceive message
  | EmitQueueIdentify int
  | EmitEvent message
  | EmitReady bool
  | EmitDisconnect int string bool
  | EmitStateChange conn_status
  | WsConnect
  | WsClose int string
  | WsSend outgoing
  | SetInterval nat int
  | ClearInterval nat
  | Rejected error

text \<open>The rest of \<^verbatim>\<open>_reconnect(resume)\<close> after its \<^verbatim>\<open>await\<close>.\<close>

datatype task = ReconnectCont bool

record options =
  opt_reconnect :: bool
  opt_token :: string
  opt_largeGuildThreshold :: "int option"
  opt_totalShards :: "int option"
  opt_intents :: int
  opt_initialPresence :: "presence option"

text \<open>
  \<open>opt_intents\<close> is the value of
  \<^verbatim>\<open>this.options.intents ? Intents.resolve(this.options.intents) : 0\<close>; the module
  \<^verbatim>\<open>Intents\<close> is not part of this file. \<open>reconnecting\<close> is the module-level variable
  of that name. \<open>timers\<close> is the next handle \<^verbatim>\<open>setInterval\<close> returns.
\<close>

record connector =
  shard_id :: int
  options :: options
  reconnect :: bool
  heartbeatTimeout :: "nat option"
  heartbeatInterval :: int
  trace :: "string option"
  seq :: int
  status :: conn_status
  sessionId :: "string option"
  lastACKAt :: int
  lastHeartbeatSend :: int
  latency :: int
  closing :: bool
  reconnecting :: bool
  timers :: nat
  heap :: "nat \<Rightarrow> activity"
  pending :: "task list"
  out :: "effect list"

record env =
  now :: int
  ws_status :: int
  platform :: string

text \<open>
  Modelled from the spec: the opcode table \<^verbatim>\<open>GATEWAY_OP_CODES\<close> of
  \<^verbatim>\<open>../Constants\<close>, which is not among the sources.
\<close>

definition OP_DISPATCH :: int where "OP_DISPATCH = 0"
definition OP_HEARTBEAT :: int where "OP_HEARTBEAT = 1"
definition OP_RECONNECT :: int where "OP_RECONNECT = 7"
definition OP_INVALID_SESSION :: int where "OP_INVALID_SESSION = 9"
definition OP_HELLO :: int where "OP_HELLO = 10"
definition OP_HEARTBEAT_ACK :: int where "OP_HEARTBEAT_ACK = 11"

subsection \<open>JavaScript truthiness of the values the connector tests\<close>

definition truthy_str :: "string option \<Rightarrow> bool" where
  "truthy_str x = (case x of None \<Rightarrow> False | Some v \<Rightarrow> v \<noteq> [])"

definition truthy_d :: "payload \<Rightarrow> bool" where
  "truthy_d x = (case x of DNull \<Rightarrow> False | DVal b _ _ _ \<Rightarrow> b)"

subsection \<open>The constructor and the small methods\<close>

definition emit :: "effect \<Rightarrow> connector \<Rightarrow> connector" where
  "emit x c = c\<lparr>out := out c @ [x]\<rparr>"

definition new_connector :: "int \<Rightarrow> options \<Rightarrow> (nat \<Rightarrow> activity) \<Rightarrow> connector" where
  "new_connector i opts h =
     \<lparr>shard_id = i, options = opts, reconnect = (opt_reconnect opts \<or> True),
      heartbeatTimeout = None, heartbeatInterval = 0, trace = None, seq = 0,
      status = Disconnected, sessionId = None, lastACKAt = 0, lastHeartbeatSend = 0,
      latency = 0, closing = False, reconnecting = False, timers = 0, heap = h,
      pending = [], out = []\<rparr>"

text \<open>The listener on \<^verbatim>\<open>ws_open\<close> that the constructor installs.\<close>

definition ws_open :: "connector \<Rightarrow> connector" where
  "ws_open c =
     (let c = c\<lparr>status := Connecting\<rparr>;
          c = emit (EmitStateChange Connecting) c
      in c\<lparr>reconnecting := False\<rparr>)"

definition connect :: "connector \<Rightarrow> connector" where
  "connect c =
     (let c = c\<lparr>closing := False\<rparr>;
          c = emit (ClientDebug (DbgConnecting (shard_id c))) c
      in emit WsConnect c)"

definition disconnect :: "connector \<Rightarrow> connector" where
  "disconnect c =
     (let c = c\<lparr>closing := True\<rparr>
      in emit (WsClose 1000 ''Disconnected by User'') c)"

definition clearHeartBeat :: "connector \<Rightarrow> connector" where
  "clearHeartBeat c =
     (let c = (case heartbeatTimeout c of
                 Some h \<Rightarrow> emit (ClearInterval h) c
               | None \<Rightarrow> c);
          c = c\<lparr>heartbeatTimeout := None\<rparr>
      in c\<lparr>heartbeatInterval := 0\<rparr>)"

definition reset :: "connector \<Rightarrow> connector" where
  "reset c =
     (let c = c\<lparr>sessionId := None\<rparr>;
          c = c\<lparr>seq := 0\<rparr>;
          c = c\<lparr>lastACKAt := 0\<rparr>;
          c = c\<lparr>trace := None\<rparr>
      in clearHeartBeat c)"

text \<open>
  \<^verbatim>\<open>_reconnect\<close> runs up to its \<^verbatim>\<open>await this.betterWs.close(...)\<close> when it is called
  (\<open>reconnect_call\<close>) and leaves the rest (\<open>reconnect_cont\<close>) suspended until the
  transport's promise resolves.
\<close>

definition reconnect_call :: "bool \<Rightarrow> env \<Rightarrow> connector \<Rightarrow> connector" where
  "reconnect_call resume e c =
     (let c = (if resume then c\<lparr>reconnecting := True\<rparr> else c);
          c = (if ws_status e = 2
               then emit (ClientError (''Client was attempting to ''
                      @ (if resume then ''resume'' else ''reconnect'')
                      @ '' while the WebSocket was still in the connecting state. This should never happen.'')) c
               else c);
          c = emit (WsClose (if resume then 4000 else 1012) ''reconnecting'') c
      in c\<lparr>pending := pending c @ [ReconnectCont resume]\<rparr>)"

definition reconnect_cont :: "bool \<Rightarrow> connector \<Rightarrow> connector" where
  "reconnect_cont resume c =
     (let c = (if resume then clearHeartBeat c else reset c)
      in connect c)"

definition resume :: "env \<Rightarrow> connector \<Rightarrow> connector" where
  "resume e c =
     (let c = (if ws_status e \<noteq> 1 then emit (ClientDebug DbgResumeNotOpen) c else c);
          c = emit (ClientDebug (DbgResuming (shard_id c))) c;
          c = c\<lparr>status := Resuming\<rparr>;
          c = emit (EmitStateChange Resuming) c
      in emit (WsSend (OutResume (seq c) (opt_token (options c)) (sessionId c))) c)"

definition heartbeat :: "env \<Rightarrow> connector \<Rightarrow> connector" where
  "heartbeat e c =
     (let c = (if ws_status e \<noteq> 1 then emit (ClientDebug DbgHeartbeatNotOpen) c else c);
          c = emit (WsSend (OutHeartbeat (seq c))) c
      in c\<lparr>lastHeartbeatSend := now e\<rparr>)"

subsection \<open>Inbound messages\<close>

definition handleDispatch :: "message \<Rightarrow> connector \<Rightarrow> connector" where
  "handleDispatch m c =
     (if t m = Some ''READY'' \<or> t m = Some ''RESUMED'' then
        (case d m of
           DNull \<Rightarrow>
             (if t m = Some ''READY'' then emit (Rejected TypeError) c
              else
                (let c = c\<lparr>status := Ready\<rparr>;
                     c = emit (EmitStateChange Ready) c
                 in emit (Rejected TypeError) c))
         | DVal _ _ tr sid \<Rightarrow>
             (let c = (if t m = Some ''READY'' then c\<lparr>sessionId := sid\<rparr> else c);
                  c = c\<lparr>status := Ready\<rparr>;
                  c = emit (EmitStateChange Ready) c;
                  c = c\<lparr>trace := tr\<rparr>;
                  c = emit (EmitReady (t m = Some ''RESUMED'')) c
              in emit (EmitEvent m) c))
      else emit (EmitEvent m) c)"

text \<open>The callback that the hello handler passes to \<^verbatim>\<open>setInterval\<close>.\<close>

definition heartbeatTick :: "env \<Rightarrow> connector \<Rightarrow> connector" where
  "heartbeatTick e c =
     (if lastACKAt c \<le> now e - (heartbeatInterval c + 5000) then
        (let c = emit (ClientDebug (DbgNoAck (shard_id c) (heartbeatInterval c + 5000))) c
         in if opt_reconnect (options c) then reconnect_call True e c else disconnect c)
      else heartbeat e c)"

text \<open>
  The first statement of \<^verbatim>\<open>messageAction\<close> after the raw-receive notification: the
  block guarded by \<^verbatim>\<open>if (message.s)\<close>. A missing, null or zero \<open>s\<close> is falsy.
\<close>

definition trackSequence :: "env \<Rightarrow> message \<Rightarrow> connector \<Rightarrow> connector" where
  "trackSequence e m c =
     (case s m of
        None \<Rightarrow> c
      | Some n \<Rightarrow>
          if n = 0 then c
          else
            (let c = (if n > seq c + 1 then
                        (let c = emit (ClientDebug (DbgInvalidSequence (shard_id c) (seq c) n)) c;
                             c = c\<lparr>seq := n\<rparr>
                         in resume e c)
                      else c)
             in c\<lparr>seq := n\<rparr>))"

definition messageAction :: "env \<Rightarrow> message \<Rightarrow> connector \<Rightarrow> connector" where
  "messageAction e m c =
     (let c = emit (RawReceive m) c;
          c = trackSequence e m c
      in if op m = OP_DISPATCH then handleDispatch m c
         else if op m = OP_HEARTBEAT then heartbeat e c
         else if op m = OP_RECONNECT then
           (let c = emit (ClientDebug (DbgAskedToReconnect (shard_id c))) c
            in if opt_reconnect (options c) then reconnect_call True e c else disconnect c)
         else if op m = OP_INVALID_SESSION then
           (if truthy_d (d m) \<and> truthy_str (sessionId c) then resume e c
            else
              (let c = c\<lparr>seq := 0\<rparr>;
                   c = c\<lparr>sessionId := Some ''''\<rparr>
               in emit (EmitQueueIdentify (shard_id c)) c))
         else if op m = OP_HELLO then
           (let c = emit (ClientDebug (DbgHello (shard_id c))) c;
                c = heartbeat e c
            in case d m of
                 DNull \<Rightarrow> emit (Rejected TypeError) c
               | DVal _ hi tr _ \<Rightarrow>
                   (let c = c\<lparr>heartbeatInterval := hi\<rparr>;
                        c = emit (SetInterval (timers c) (heartbeatInterval c)) c;
                        c = c\<lparr>heartbeatTimeout := Some (timers c), timers := Suc (timers c)\<rparr>;
                        c = c\<lparr>trace := tr\<rparr>
                    in emit (EmitQueueIdentify (shard_id c)) c))
         else if op m = OP_HEARTBEAT_ACK then
           (let c = c\<lparr>lastACKAt := now e\<rparr>
            in c\<lparr>latency := lastACKAt c - lastHeartbeatSend c\<rparr>)
         else emit (EmitEvent m) c)"

subsection \<open>Transport close\<close>

definition recover :: "string \<Rightarrow> connector \<Rightarrow> connector" where
  "recover msg c =
     (let c = emit (ClientError msg) c;
          c = clearHeartBeat c
      in connect c)"

text \<open>
  \<open>recover\<close> is the body shared by the branches for 4009, 4008, 4005, 4003, 4002, 4001
  and the second branch of 4000: report, \<^verbatim>\<open>clearHeartBeat()\<close>, \<^verbatim>\<open>connect()\<close>.
  The tests on \<open>code\<close> are separate statements in the source and are kept in its order.
\<close>

definition handleWsClose :: "int \<Rightarrow> string \<Rightarrow> connector \<Rightarrow> connector" where
  "handleWsClose code reason c =
     (let gracefulClose = False;
          c = c\<lparr>status := Disconnected\<rparr>;
          c = emit (EmitStateChange Disconnected) c;
          c = (if code = 4014 then emit (ClientError ''Disallowed Intents, check your client options and application page.'') c else c);
          c = (if code = 4013 then emit (ClientError ''Invalid Intents data, check your client options.'') c else c);
          c = (if code = 4012 then emit (ClientError ''Invalid API version.'') c else c);
          c = (if code = 4011 then emit (ClientError ''Shard would be on over 2500 guilds. Add more shards.'') c else c);
          c = (if code = 4010 then emit (ClientError ''Invalid sharding data, check your client options.'') c else c);
          c = (if code = 4009 then recover ''Session timed out.'' c else c);
          c = (if code = 4008 then recover ''You are being rate limited. Wait before sending more packets.'' c else c);
          c = (if code = 4007 then
                 (let c = emit (ClientError ''Invalid sequence. Reconnecting and starting a new session.'') c;
                      c = reset c
                  in connect c)
               else c);
          c = (if code = 4005 then recover ''You sent more than one OP 2 IDENTIFY payload while the websocket was open.'' c else c);
          c = (if code = 4004 then emit (ClientError ''Tried to connect with an invalid token'') c else c);
          c = (if code = 4003 then recover ''You tried to send a packet before sending an OP 2 IDENTIFY or OP 6 RESUME.'' c else c);
          c = (if code = 4002 then recover ''You sent an invalid payload'' c else c);
          c = (if code = 4001 then recover ''You sent an invalid opcode or invalid payload for an opcode'' c else c);
          (gracefulClose, c) =
            (if code = 4000 then
               (if reconnecting c then (True, c)
                else (gracefulClose, recover ''Error code 4000 received. Attempting to resume'' c))
             else (gracefulClose, c));
          gracefulClose = (if code = 1000 \<and> closing c then True else gracefulClose);
          c = c\<lparr>closing := False\<rparr>;
          c = (if gracefulClose then clearHeartBeat c else c)
      in emit (EmitDisconnect code reason gracefulClose) c)"

subsection \<open>Outgoing payloads\<close>

text \<open>\<^verbatim>\<open>Array.prototype.indexOf\<close> (\<open>-1\<close> when absent) and \<^verbatim>\<open>splice(start, deleteCount)\<close>.\<close>

fun indexOf :: "'a list \<Rightarrow> 'a \<Rightarrow> int" where
  "indexOf [] x = -1"
| "indexOf (y # ys) x =
     (if y = x then 0 else (let r = indexOf ys x in if r < 0 then -1 else r + 1))"

definition splice :: "int \<Rightarrow> nat \<Rightarrow> 'a list \<Rightarrow> 'a list" where
  "splice start deleteCount xs =
     (let len = int (length xs);
          k = nat (if start < 0 then max (len + start) 0 else min start len)
      in take k xs @ drop (k + deleteCount) xs)"

text \<open>
  The \<^verbatim>\<open>for (const activity of data.activities)\<close> loop of \<^verbatim>\<open>_checkPresenceData\<close>.
  The array iterator keeps a position \<open>i\<close> and compares it with the array's current
  length at every step; the body writes to the activity object and may splice the array
  that is being iterated.
\<close>

function checkActivities ::
  "nat \<Rightarrow> (nat \<Rightarrow> activity) \<Rightarrow> nat list \<Rightarrow> (nat \<Rightarrow> activity) \<times> nat list" where
  "checkActivities i h arr =
     (if i < length arr then
        (let act = arr ! i;
             index = indexOf arr act;
             h = (if a_type (h act) = None
                  then h(act := (h act)\<lparr>a_type := Some (if truthy_str (a_url (h act)) then 1 else 0)\<rparr>)
                  else h);
             arr = (if \<not> truthy_str (a_name (h act)) then splice index 1 arr else arr)
         in checkActivities (Suc i) h arr)
      else (h, arr))"
  by pat_completeness auto
termination
  by (relation "measure (\<lambda>(i, h, arr). length arr - i)")
     (auto simp: splice_def Let_def)

declare checkActivities.simps [simp del]

definition checkPresenceData ::
  "env \<Rightarrow> (nat \<Rightarrow> activity) \<Rightarrow> presence \<Rightarrow> (nat \<Rightarrow> activity) \<times> presence" where
  "checkPresenceData e h data =
     (let data = data\<lparr>p_status := (if truthy_str (p_status data) then p_status data else Some ''online'')\<rparr>;
          data = data\<lparr>p_activities := (case p_activities data of Some a \<Rightarrow> Some a | None \<Rightarrow> Some [])\<rparr>;
          (h, data) =
            (case p_activities data of
               Some arr \<Rightarrow> (let (h, arr) = checkActivities 0 h arr in (h, data\<lparr>p_activities := Some arr\<rparr>))
             | None \<Rightarrow> (h, data));
          data = data\<lparr>p_afk := (if p_afk data = Some True then p_afk data else Some False)\<rparr>;
          data = data\<lparr>p_since := (case p_since data of
                                     None \<Rightarrow> Some (now e)
                                   | Some v \<Rightarrow> if v = 0 then Some (now e) else Some v)\<rparr>
      in (h, data))"

text \<open>What the transport serialises when it is given the presence object.\<close>

definition sent :: "(nat \<Rightarrow> activity) \<Rightarrow> presence \<Rightarrow> presence_sent" where
  "sent h data =
     \<lparr>ps_status = p_status data,
      ps_activities = (case p_activities data of None \<Rightarrow> [] | Some arr \<Rightarrow> map h arr),
      ps_afk = p_afk data, ps_since = p_since data\<rparr>"

definition presenceUpdate :: "env \<Rightarrow> presence \<Rightarrow> connector \<Rightarrow> connector" where
  "presenceUpdate e data c =
     (let (h, data) = checkPresenceData e (heap c) data;
          c = c\<lparr>heap := h\<rparr>
      in emit (WsSend (OutPresenceUpdate (sent h data))) c)"

definition identify :: "bool \<Rightarrow> env \<Rightarrow> connector \<Rightarrow> connector" where
  "identify force e c =
     (let c = (if ws_status e \<noteq> 1 then emit (ClientDebug DbgIdentifyNotOpen) c else c)
      in if truthy_str (sessionId c) \<and> \<not> force then resume e c
         else
           (let c = emit (ClientDebug (DbgIdentifying (shard_id c))) c;
                c = c\<lparr>status := Identifying\<rparr>;
                c = emit (EmitStateChange Identifying) c;
                data = \<lparr>i_token = opt_token (options c), i_os = platform e,
                        i_browser = ''CloudStorm'', i_device = ''CloudStorm'',
                        i_large_threshold = opt_largeGuildThreshold (options c),
                        i_shard = (shard_id c,
                          (case opt_totalShards (options c) of
                             None \<Rightarrow> 1 | Some n \<Rightarrow> if n = 0 then 1 else n)),
                        i_intents = opt_intents (options c), i_presence = None\<rparr>;
                (c, data) =
                  (case opt_initialPresence (options c) of
                     None \<Rightarrow> (c, data)
                   | Some p \<Rightarrow>
                       (let (h, p) = checkPresenceData e (heap c) p
                        in (c\<lparr>heap := h, options := (options c)\<lparr>opt_initialPresence := Some p\<rparr>\<rparr>,
                            data\<lparr>i_presence := Some (sent h p)\<rparr>)))
            in emit (WsSend (OutIdentify data)) c))"

subsection \<open>Runs\<close>

text \<open>
  What can happen to a connector: a notification of the transport, a firing of the
  heartbeat timer, the resolution of the promise a suspended \<^verbatim>\<open>_reconnect\<close> awaits,
  or a call of a public method. Each comes with the environment it runs in.
\<close>

datatype event =
    EvOpen
  | EvMessage message
  | EvClose int string
  | EvTick
  | EvAwaitDone
  | EvConnect
  | EvDisconnect
  | EvIdentify bool
  | EvPresenceUpdate presence

fun step :: "connector \<Rightarrow> env \<times> event \<Rightarrow> connector" where
  "step c (e, EvOpen) = ws_open c"
| "step c (e, EvMessage m) = messageAction e m c"
| "step c (e, EvClose code reason) = handleWsClose code reason c"
| "step c (e, EvTick) = heartbeatTick e c"
| "step c (e, EvAwaitDone) =
     (case pending c of
        [] \<Rightarrow> c
      | ReconnectCont r # ts \<Rightarrow> reconnect_cont r (c\<lparr>pending := ts\<rparr>))"
| "step c (e, EvConnect) = connect c"
| "step c (e, EvDisconnect) = disconnect c"
| "step c (e, EvIdentify force) = identify force e c"
| "step c (e, EvPresenceUpdate data) = presenceUpdate e data c"

definition run :: "connector \<Rightarrow> (env \<times> event) list \<Rightarrow> connector" where
  "run c evs = foldl step c evs"

subsection \<open>Reading the log\<close>

text \<open>
  \<open>emitted c c'\<close> is what was logged on the way from \<open>c\<close> to \<open>c'\<close>; \<open>cleared c\<close> is
  the \<^verbatim>\<open>clearInterval\<close> that \<^verbatim>\<open>clearHeartBeat\<close> issues in \<open>c\<close>, if any; \<open>cancels\<close>
  counts the timer cancellations in a log.
\<close>

definition emitted :: "connector \<Rightarrow> connector \<Rightarrow> effect list" where
  "emitted c c' = drop (length (out c)) (out c')"

definition cleared :: "connector \<Rightarrow> effect list" where
  "cleared c = (case heartbeatTimeout c of Some h \<Rightarrow> [ClearInterval h] | None \<Rightarrow> [])"

definition cancels :: "effect list \<Rightarrow> nat" where
  "cancels xs = length (filter (\<lambda>x. case x of ClearInterval _ \<Rightarrow> True | _ \<Rightarrow> False) xs)"

subsection \<open>A concrete session\<close>

text \<open>
  A shard with automatic reconnection that connects, receives hello with an interval of
  40000 ms, identifies and receives READY for the session \<open>abc\<close> with sequence number 1.
\<close>

definition ex_options :: options where
  "ex_options = \<lparr>opt_reconnect = True, opt_token = ''token'', opt_largeGuildThreshold = None,
     opt_totalShards = None, opt_intents = 0, opt_initialPresence = None\<rparr>"

definition ex_heap :: "nat \<Rightarrow> activity" where
  "ex_heap = (\<lambda>_. \<lparr>a_name = None, a_type = None, a_url = None\<rparr>)
     (0 := \<lparr>a_name = None, a_type = None, a_url = Some ''https://a''\<rparr>,
      1 := \<lparr>a_name = None, a_type = None, a_url = Some ''https://b''\<rparr>)"

definition ex_env :: "int \<Rightarrow> env" where
  "ex_env n = \<lparr>now = n, ws_status = 1, platform = ''linux''\<rparr>"

definition ex_new :: connector where
  "ex_new = new_connector 0 ex_options ex_heap"

definition ex_hello :: message where
  "ex_hello = \<lparr>op = 10, d = DVal True 40000 None None, s = None, t = None\<rparr>"

definition ex_ready_msg :: message where
  "ex_ready_msg =
     \<lparr>op = 0, d = DVal True 0 None (Some ''abc''), s = Some 1, t = Some ''READY''\<rparr>"

definition ex_session :: "(env \<times> event) list" where
  "ex_session = [(ex_env 0, EvConnect), (ex_env 10, EvOpen), (ex_env 20, EvMessage ex_hello),
     (ex_env 30, EvIdentify False), (ex_env 40, EvMessage ex_ready_msg)]"

definition ex_ready :: connector where
  "ex_ready = run ex_new ex_session"

text \<open>Messages and a presence used at the concrete session.\<close>

definition ex_invalid :: message where
  "ex_invalid = \<lparr>op = 9, d = DVal False 0 None None, s = None, t = None\<rparr>"

definition ex_invalid0 :: message where
  "ex_invalid0 = \<lparr>op = 9, d = DVal False 0 None None, s = Some 0, t = None\<rparr>"

definition ex_invalid2 :: message where
  "ex_invalid2 = \<lparr>op = 9, d = DVal False 0 None None, s = Some 2, t = None\<rparr>"

definition ex_reconnect :: message where
  "ex_reconnect = \<lparr>op = 7, d = DNull, s = None, t = None\<rparr>"

definition ex_gap :: message where
  "ex_gap = \<lparr>op = 0, d = DVal True 0 None None, s = Some 5, t = Some ''MESSAGE_CREATE''\<rparr>"

definition ex_presence :: presence where
  "ex_presence = \<lparr>p_status = None, p_activities = Some [0, 1], p_afk = None, p_since = None\<rparr>"

subsection \<open>The session invariant\<close>

text \<open>
  \<open>ready_inv\<close> is the invariant of the specification. \<open>resume_only\<close> says that every
  suspended \<^verbatim>\<open>_reconnect\<close> was called with \<^verbatim>\<open>resume = true\<close>, as all calls in the class
  are. \<open>excepted c ev\<close> singles out the inbound messages that do not preserve
  \<open>ready_inv\<close> in the state \<open>c\<close>, and \<open>run_ok\<close> the runs without such a message.
\<close>

definition ready_inv :: "connector \<Rightarrow> bool" where
  "ready_inv c = (status c = Ready \<longrightarrow> truthy_str (sessionId c))"

definition resume_only :: "connector \<Rightarrow> bool" where
  "resume_only c = (\<forall>x \<in> set (pending c). x = ReconnectCont True)"

definition excepted :: "connector \<Rightarrow> event \<Rightarrow> bool" where
  "excepted c ev =
     (case ev of
        EvMessage m \<Rightarrow>
          (op m = OP_INVALID_SESSION \<and> \<not> truthy_d (d m) \<and> status c = Ready) \<or>
          (op m = OP_DISPATCH \<and> t m = Some ''RESUMED'' \<and> \<not> truthy_str (sessionId c)) \<or>
          (op m = OP_DISPATCH \<and> t m = Some ''READY'' \<and>
             (case d m of DNull \<Rightarrow> False | DVal _ _ _ sid \<Rightarrow> \<not> truthy_str sid))
      | _ \<Rightarrow> False)"

fun run_ok :: "connector \<Rightarrow> (env \<times> event) list \<Rightarrow> bool" where
  "run_ok c [] = True"
| "run_ok c ((e, ev) # evs) = (\<not> excepted c ev \<and> run_ok (step c (e, ev)) evs)"


subsection \<open>Runs that do not ask for a disconnect\<close>



section \<open>Properties\<close>

lemmas method_defs = emit_def connect_def disconnect_def clearHeartBeat_def reset_def recover_def
  reconnect_call_def reconnect_cont_def resume_def heartbeat_def ws_open_def

lemmas OP_defs = OP_DISPATCH_def OP_HEARTBEAT_def OP_RECONNECT_def OP_INVALID_SESSION_def
  OP_HELLO_def OP_HEARTBEAT_ACK_def

lemmas ex_defs = ex_options_def ex_env_def ex_new_def ex_hello_def ex_ready_msg_def
  ex_session_def new_connector_def

lemmas ex_msgs = ex_invalid_def ex_invalid0_def ex_invalid2_def ex_reconnect_def ex_gap_def

lemmas ex_eval = ex_ready_def run_def ex_defs messageAction_def trackSequence_def
  handleDispatch_def identify_def handleWsClose_def heartbeatTick_def method_defs OP_defs
  truthy_str_def truthy_d_def emitted_def cleared_def cancels_def Let_def

lemma ex_ready_fields:
  "status ex_ready = Ready" "sessionId ex_ready = Some ''abc''" "seq ex_ready = 1"
  "heartbeatTimeout ex_ready = Some 0" "heartbeatInterval ex_ready = 40000"
  "lastACKAt ex_ready = 0" "pending ex_ready = []" "trace ex_ready = None"
  "opt_reconnect (options ex_ready) = True" "shard_id ex_ready = 0" "closing ex_ready = False"
  "reconnecting ex_ready = False" "options ex_ready = ex_options"
  by (simp_all add: ex_ready_def run_def ex_defs messageAction_def trackSequence_def
      handleDispatch_def identify_def method_defs OP_defs truthy_str_def Let_def)

subsection \<open>Heartbeat timeout\<close>




subsection \<open>Transport close\<close>

text \<open>
  C5: on a transport close with code 4007 the connector reports the error, hard-resets
  (the session identifier is cleared, the sequence number is 0, the heartbeat timer is
  cancelled if there is one and forgotten) and reconnects; the close is then reported as
  not graceful.
\<close>

theorem close_4007_hard_reset:
  "sessionId (handleWsClose 4007 reason c) = None \<and>
   seq (handleWsClose 4007 reason c) = 0 \<and>
   heartbeatTimeout (handleWsClose 4007 reason c) = None \<and>
   emitted c (handleWsClose 4007 reason c) =
     [EmitStateChange Disconnected,
      ClientError ''Invalid sequence. Reconnecting and starting a new session.'']
     @ cleared c
     @ [ClientDebug (DbgConnecting (shard_id c)), WsConnect, EmitDisconnect 4007 reason False]"
  by (simp add: handleWsClose_def method_defs emitted_def cleared_def Let_def split: option.split)

text \<open>
  C8: a close notification with code 1000 that arrives while \<open>closing\<close> is set starts no
  reconnect (nothing is asked of the transport and no call is left suspended), reports no
  error, and is reported upward as graceful.
\<close>

theorem close_1000_while_closing:
  assumes "closing c"
  shows "emitted c (handleWsClose 1000 reason c) =
           [EmitStateChange Disconnected] @ cleared c @ [EmitDisconnect 1000 reason True] \<and>
         WsConnect \<notin> set (emitted c (handleWsClose 1000 reason c)) \<and>
         (\<forall>msg. ClientError msg \<notin> set (emitted c (handleWsClose 1000 reason c))) \<and>
         pending (handleWsClose 1000 reason c) = pending c"
  using assms
  by (simp add: handleWsClose_def method_defs emitted_def cleared_def Let_def split: option.split)

text \<open>C8 at the concrete session, after \<^verbatim>\<open>disconnect()\<close>.\<close>

theorem close_1000_while_closing_witness:
  "closing (disconnect ex_ready) \<and>
   emitted (disconnect ex_ready) (handleWsClose 1000 ''bye'' (disconnect ex_ready)) =
     [EmitStateChange Disconnected, ClearInterval 0, EmitDisconnect 1000 ''bye'' True]"
  using close_1000_while_closing [of "disconnect ex_ready" "''bye''"]
  by (simp add: ex_eval)

subsection \<open>Session-invalid and reconnect requests\<close>

text \<open>
  C2, as the claim states it, fails: at the concrete session the session identifier is
  \<open>abc\<close>, and a session-invalid message whose payload is \<open>false\<close> is not answered with a
  resume. The identifier becomes the empty string, the sequence number 0, and the
  heartbeat timer stays as it was.
\<close>

theorem invalid_session_counterexample:
  "truthy_str (sessionId ex_ready) \<and>
   emitted ex_ready (messageAction (ex_env 50) ex_invalid ex_ready) =
     [RawReceive ex_invalid, EmitQueueIdentify 0] \<and>
   sessionId (messageAction (ex_env 50) ex_invalid ex_ready) = Some '''' \<and>
   seq (messageAction (ex_env 50) ex_invalid ex_ready) = 0 \<and>
   heartbeatTimeout (messageAction (ex_env 50) ex_invalid ex_ready) = Some 0"
  by (simp add: ex_eval ex_msgs)

text \<open>
  C2, amended: for every session-invalid message, if its payload is truthy and the session
  identifier is non-empty, the last thing the handler does is to send a resume with the
  stored identifier; the status is \<open>Resuming\<close>, the identifier is unchanged and no
  identify-required notification is emitted. Otherwise the sequence number is set to 0,
  the identifier to the empty string, and the handler ends with the identify-required
  notification. In both cases the trace, the heartbeat timer, its interval and the time of
  the last acknowledgement are left as they were, and no timer is cancelled.
\<close>

theorem invalid_session_resume_or_identify:
  assumes "op m = OP_INVALID_SESSION"
  shows
    "(if truthy_d (d m) \<and> truthy_str (sessionId c) then
        last (out (messageAction e m c)) =
          WsSend (OutResume (seq (messageAction e m c)) (opt_token (options c)) (sessionId c)) \<and>
        status (messageAction e m c) = Resuming \<and>
        sessionId (messageAction e m c) = sessionId c \<and>
        seq (messageAction e m c) = seq (trackSequence e m c) \<and>
        EmitQueueIdentify (shard_id c) \<notin> set (emitted c (messageAction e m c))
      else
        seq (messageAction e m c) = 0 \<and>
        sessionId (messageAction e m c) = Some '''' \<and>
        last (out (messageAction e m c)) = EmitQueueIdentify (shard_id c) \<and>
        emitted (trackSequence e m (emit (RawReceive m) c)) (messageAction e m c) =
          [EmitQueueIdentify (shard_id c)]) \<and>
     trace (messageAction e m c) = trace c \<and>
     heartbeatTimeout (messageAction e m c) = heartbeatTimeout c \<and>
     heartbeatInterval (messageAction e m c) = heartbeatInterval c \<and>
     lastACKAt (messageAction e m c) = lastACKAt c \<and>
     cancels (emitted c (messageAction e m c)) = 0"
  using assms
  by (simp add: messageAction_def trackSequence_def method_defs OP_defs emitted_def cancels_def
      Let_def split: option.split)

text \<open>The amended C2 at the concrete session, for a payload \<open>false\<close>.\<close>

theorem invalid_session_resume_or_identify_witness:
  "op ex_invalid = OP_INVALID_SESSION \<and>
   sessionId (messageAction (ex_env 50) ex_invalid ex_ready) = Some '''' \<and>
   heartbeatTimeout (messageAction (ex_env 50) ex_invalid ex_ready) = heartbeatTimeout ex_ready"
  using invalid_session_resume_or_identify
    [where m = ex_invalid and e = "ex_env 50" and c = ex_ready]
  by (simp add: ex_invalid_def OP_defs truthy_d_def)

text \<open>
  C3, as the claim states it, fails: with automatic reconnection, a reconnect request
  (op 7) at the concrete session leads to a close with code 4000, a cancelled timer and a
  new connection, and the session \<open>abc\<close> and the sequence number 1 are still stored
  afterwards.
\<close>

theorem reconnect_request_counterexample:
  "op ex_reconnect = OP_RECONNECT \<and>
   opt_reconnect (options ex_ready) \<and>
   sessionId (run ex_ready [(ex_env 50, EvMessage ex_reconnect), (ex_env 60, EvAwaitDone)]) =
     Some ''abc'' \<and>
   seq (run ex_ready [(ex_env 50, EvMessage ex_reconnect), (ex_env 60, EvAwaitDone)]) = 1 \<and>
   emitted ex_ready
     (run ex_ready [(ex_env 50, EvMessage ex_reconnect), (ex_env 60, EvAwaitDone)]) =
     [RawReceive ex_reconnect, ClientDebug (DbgAskedToReconnect 0), WsClose 4000 ''reconnecting'',
      ClearInterval 0, ClientDebug (DbgConnecting 0), WsConnect]"
  by (simp add: ex_eval ex_msgs)

text \<open>
  C3, amended: on every reconnect request (op 7), a connector with automatic reconnection
  marks the reconnect as its own, closes the transport with code 4000 and suspends; when
  the call continues it cancels the heartbeat timer and reconnects, and the session
  identifier and the sequence number are the ones stored after the message's sequence
  number was taken in (nothing is discarded). Without automatic reconnection the handler
  ends with a graceful disconnect: \<open>closing\<close> is set, the transport is closed with code
  1000, and no connection is requested.
\<close>

theorem reconnect_request_keeps_session:
  assumes "op m = OP_RECONNECT"
  shows
    "if opt_reconnect (options c) then
       reconnecting (messageAction e m c) \<and>
       pending (messageAction e m c) = pending c @ [ReconnectCont True] \<and>
       last (out (messageAction e m c)) = WsClose 4000 ''reconnecting'' \<and>
       emitted (messageAction e m c) (reconnect_cont True (messageAction e m c)) =
         cleared c @ [ClientDebug (DbgConnecting (shard_id c)), WsConnect] \<and>
       heartbeatTimeout (reconnect_cont True (messageAction e m c)) = None \<and>
       sessionId (reconnect_cont True (messageAction e m c)) = sessionId c \<and>
       seq (reconnect_cont True (messageAction e m c)) = seq (trackSequence e m c)
     else
       closing (messageAction e m c) \<and>
       pending (messageAction e m c) = pending c \<and>
       last (out (messageAction e m c)) = WsClose 1000 ''Disconnected by User'' \<and>
       WsConnect \<notin> set (emitted c (messageAction e m c)) \<and>
       sessionId (messageAction e m c) = sessionId c"
  using assms
  by (simp add: messageAction_def trackSequence_def method_defs OP_defs emitted_def cleared_def
      Let_def split: option.split)

text \<open>The amended C3 at the concrete session.\<close>

theorem reconnect_request_keeps_session_witness:
  "op ex_reconnect = OP_RECONNECT \<and>
   opt_reconnect (options ex_ready) \<and>
   last (out (messageAction (ex_env 50) ex_reconnect ex_ready)) = WsClose 4000 ''reconnecting'' \<and>
   sessionId (reconnect_cont True (messageAction (ex_env 50) ex_reconnect ex_ready)) = Some ''abc''"
  using reconnect_request_keeps_session
    [where m = ex_reconnect and e = "ex_env 50" and c = ex_ready]
  by (simp add: ex_reconnect_def OP_defs ex_ready_fields ex_options_def)

subsection \<open>Sequence numbers\<close>

text \<open>
  C4 does not hold of the code: a new connector has no session identifier, and a dispatch
  with sequence number 5 is a gap. The connector sends a resume (op 6) whose session
  identifier is null, and emits no identify-required notification.
\<close>

theorem gap_resume_without_session:
  "sessionId ex_new = None \<and>
   emitted ex_new (messageAction (ex_env 50) ex_gap ex_new) =
     [RawReceive ex_gap, ClientDebug (DbgInvalidSequence 0 0 5), ClientDebug (DbgResuming 0),
      EmitStateChange Resuming, WsSend (OutResume 5 ''token'' None), EmitEvent ex_gap]"
  by (simp add: ex_eval ex_msgs)

text \<open>
  C9, as the claim states it, fails: at the concrete session the stored sequence number is
  1; a session-invalid message that carries the sequence number 0 changes it to 0, and one
  that carries the sequence number 2 leaves 0 stored, not 2.
\<close>

theorem sequence_zero_counterexample:
  "s ex_invalid0 = Some 0 \<and> seq ex_ready = 1 \<and>
   seq (messageAction (ex_env 50) ex_invalid0 ex_ready) = 0 \<and>
   s ex_invalid2 = Some 2 \<and>
   seq (messageAction (ex_env 50) ex_invalid2 ex_ready) = 0"
  by (simp add: ex_eval ex_msgs)

text \<open>
  C9, amended: the sequence block of \<^verbatim>\<open>messageAction\<close> does nothing at all for a message
  whose sequence number is 0 or missing (no update, no gap detection), and stores every
  other sequence number. The sequence number stored after the whole of
  \<^verbatim>\<open>messageAction\<close> is the one that block leaves, except for a session-invalid message
  that is not resumed, after which it is 0 whatever the message carried.
\<close>

theorem sequence_after_message:
  "seq (messageAction e m c) =
     (if op m = OP_INVALID_SESSION \<and> \<not> (truthy_d (d m) \<and> truthy_str (sessionId c)) then 0
      else case s m of None \<Rightarrow> seq c | Some n \<Rightarrow> if n = 0 then seq c else n) \<and>
   trackSequence e (m\<lparr>s := Some 0\<rparr>) c = c \<and>
   trackSequence e (m\<lparr>s := None\<rparr>) c = c \<and>
   seq (trackSequence e m c) =
     (case s m of None \<Rightarrow> seq c | Some n \<Rightarrow> if n = 0 then seq c else n)"
  by (simp add: messageAction_def trackSequence_def handleDispatch_def method_defs OP_defs
      Let_def split: option.split payload.split)

subsection \<open>The session invariant\<close>

lemma trackSequence_raw:
  "ready_inv c \<Longrightarrow> ready_inv (trackSequence e m (emit x c))"
  "sessionId (trackSequence e m (emit x c)) = sessionId c"
  "pending (trackSequence e m (emit x c)) = pending c"
  "status (trackSequence e m (emit x c)) = status c \<or>
   status (trackSequence e m (emit x c)) = Resuming"
  by (simp_all add: trackSequence_def ready_inv_def method_defs Let_def split: option.split)

lemma messageAction_routes:
  "messageAction e m c =
     (let c1 = trackSequence e m (emit (RawReceive m) c)
      in if op m = OP_DISPATCH then handleDispatch m c1
         else if op m = OP_HEARTBEAT then heartbeat e c1
         else if op m = OP_RECONNECT then
           (if opt_reconnect (options c1)
            then reconnect_call True e (emit (ClientDebug (DbgAskedToReconnect (shard_id c1))) c1)
            else disconnect (emit (ClientDebug (DbgAskedToReconnect (shard_id c1))) c1))
         else if op m = OP_INVALID_SESSION then
           (if truthy_d (d m) \<and> truthy_str (sessionId c1) then resume e c1
            else emit (EmitQueueIdentify (shard_id c1)) (c1\<lparr>seq := 0, sessionId := Some ''''\<rparr>))
         else if op m = OP_HELLO then
           (case d m of
              DNull \<Rightarrow>
                emit (Rejected TypeError)
                  (heartbeat e (emit (ClientDebug (DbgHello (shard_id c1))) c1))
            | DVal b hi tr sid \<Rightarrow>
                emit (EmitQueueIdentify (shard_id c1))
                  ((emit (SetInterval (timers c1) hi)
                     ((heartbeat e (emit (ClientDebug (DbgHello (shard_id c1))) c1))
                        \<lparr>heartbeatInterval := hi\<rparr>))
                     \<lparr>heartbeatTimeout := Some (timers c1), timers := Suc (timers c1),
                        trace := tr\<rparr>))
         else if op m = OP_HEARTBEAT_ACK then
           c1\<lparr>lastACKAt := now e, latency := now e - lastHeartbeatSend c1\<rparr>
         else emit (EmitEvent m) c1)"
  by (simp add: messageAction_def Let_def emit_def heartbeat_def split: payload.split)

lemma handleDispatch_inv:
  assumes "ready_inv c"
    and "\<not> (t m = Some ''RESUMED'' \<and> \<not> truthy_str (sessionId c))"
    and "\<not> (t m = Some ''READY'' \<and>
           (case d m of DNull \<Rightarrow> False | DVal _ _ _ sid \<Rightarrow> \<not> truthy_str sid))"
  shows "ready_inv (handleDispatch m c) \<and> pending (handleDispatch m c) = pending c"
  using assms
  by (auto simp: handleDispatch_def ready_inv_def emit_def Let_def split: payload.split)

lemma small_methods_same:
  "status (emit x c) = status c" "sessionId (emit x c) = sessionId c"
  "pending (emit x c) = pending c"
  "status (heartbeat e c) = status c" "sessionId (heartbeat e c) = sessionId c"
  "pending (heartbeat e c) = pending c"
  "status (disconnect c) = status c" "sessionId (disconnect c) = sessionId c"
  "pending (disconnect c) = pending c"
  "status (reconnect_call True e c) = status c" "sessionId (reconnect_call True e c) = sessionId c"
  "pending (reconnect_call True e c) = pending c @ [ReconnectCont True]"
  "status (resume e c) = Resuming" "pending (resume e c) = pending c"
  by (simp_all add: method_defs Let_def)

lemma messageAction_inv:
  assumes "ready_inv c" "resume_only c" "\<not> excepted c (EvMessage m)"
  shows "ready_inv (messageAction e m c) \<and> resume_only (messageAction e m c)"
proof -
  define c1 where "c1 = trackSequence e m (emit (RawReceive m) c)"
  have inv1: "ready_inv c1" and sid: "sessionId c1 = sessionId c"
    and pend: "pending c1 = pending c"
    using assms(1) by (simp_all add: c1_def trackSequence_raw)
  have st: "status c1 = Ready \<Longrightarrow> status c = Ready"
    using trackSequence_raw(4) [of e m "RawReceive m" c] by (auto simp: c1_def)
  from assms(2) pend have only1: "\<forall>x \<in> set (pending c1). x = ReconnectCont True"
    by (simp add: resume_only_def)
  from inv1 have r1: "status c1 = Ready \<Longrightarrow> truthy_str (sessionId c1)"
    by (simp add: ready_inv_def)
  note routes = messageAction_routes [of e m c, folded c1_def, unfolded Let_def]
  consider (dispatch) "op m = OP_DISPATCH" | (heartbeat) "op m = OP_HEARTBEAT"
    | (reconnect) "op m = OP_RECONNECT" | (invalid) "op m = OP_INVALID_SESSION"
    | (hello) "op m = OP_HELLO" | (ack) "op m = OP_HEARTBEAT_ACK"
    | (other) "op m \<noteq> OP_DISPATCH" "op m \<noteq> OP_HEARTBEAT" "op m \<noteq> OP_RECONNECT"
        "op m \<noteq> OP_INVALID_SESSION" "op m \<noteq> OP_HELLO" "op m \<noteq> OP_HEARTBEAT_ACK"
    by blast
  then show ?thesis
  proof cases
    case dispatch
    with assms(3) sid
    have "\<not> (t m = Some ''RESUMED'' \<and> \<not> truthy_str (sessionId c1))"
      and "\<not> (t m = Some ''READY'' \<and>
             (case d m of DNull \<Rightarrow> False | DVal _ _ _ sid \<Rightarrow> \<not> truthy_str sid))"
      by (simp_all add: excepted_def)
    from handleDispatch_inv [OF inv1 this] dispatch only1 show ?thesis
      by (simp add: routes resume_only_def)
  next
    case heartbeat
    with r1 only1 show ?thesis
      by (simp add: routes OP_defs ready_inv_def resume_only_def small_methods_same)
  next
    case reconnect
    with r1 only1 show ?thesis
      by (simp add: routes OP_defs ready_inv_def resume_only_def small_methods_same)
  next
    case invalid
    with assms(3) have "truthy_d (d m) \<or> status c \<noteq> Ready"
      by (auto simp: excepted_def OP_defs)
    with st have "truthy_d (d m) \<or> status c1 \<noteq> Ready" by blast
    with invalid r1 only1 show ?thesis
      by (auto simp: routes OP_defs ready_inv_def resume_only_def small_methods_same)
  next
    case hello
    with r1 only1 show ?thesis
      by (simp add: routes OP_defs ready_inv_def resume_only_def small_methods_same
          split: payload.split)
  next
    case ack
    with r1 only1 show ?thesis
      by (simp add: routes OP_defs ready_inv_def resume_only_def)
  next
    case other
    with r1 only1 show ?thesis
      by (simp add: routes ready_inv_def resume_only_def small_methods_same)
  qed
qed

lemma close_code_cases:
  "code = 4014 \<or> code = 4013 \<or> code = 4012 \<or> code = 4011 \<or> code = 4010 \<or> code = 4009 \<or>
   code = 4008 \<or> code = 4007 \<or> code = 4005 \<or> code = 4004 \<or> code = 4003 \<or> code = 4002 \<or>
   code = 4001 \<or> code = 4000 \<or>
   (code \<noteq> 4014 \<and> code \<noteq> 4013 \<and> code \<noteq> 4012 \<and> code \<noteq> 4011 \<and> code \<noteq> 4010 \<and>
    code \<noteq> 4009 \<and> code \<noteq> 4008 \<and> code \<noteq> 4007 \<and> code \<noteq> 4005 \<and> code \<noteq> 4004 \<and>
    code \<noteq> 4003 \<and> code \<noteq> 4002 \<and> code \<noteq> 4001 \<and> code \<noteq> (4000::int))"
  by blast

lemma handleWsClose_status:
  "status (handleWsClose code reason c) = Disconnected \<and>
   pending (handleWsClose code reason c) = pending c"
  using close_code_cases [of code]
  by (elim disjE)
     (simp_all add: handleWsClose_def method_defs Let_def split: option.split)

lemma handleWsClose_inv:
  "ready_inv (handleWsClose code reason c)"
  "resume_only c \<Longrightarrow> resume_only (handleWsClose code reason c)"
  by (simp_all add: handleWsClose_status ready_inv_def resume_only_def)

lemma reconnect_cont_same:
  "status (reconnect_cont True c) = status c"
  "sessionId (reconnect_cont True c) = sessionId c"
  "pending (reconnect_cont True c) = pending c"
  by (simp_all add: method_defs Let_def split: option.split)

lemma await_inv:
  assumes "ready_inv c" "resume_only c"
  shows "ready_inv (step c (e, EvAwaitDone)) \<and> resume_only (step c (e, EvAwaitDone))"
proof (cases "pending c")
  case Nil
  with assms show ?thesis by simp
next
  case (Cons x ts)
  with assms(2) have x: "x = ReconnectCont True"
    and ts: "\<forall>y \<in> set ts. y = ReconnectCont True"
    by (simp_all add: resume_only_def)
  from assms(1) have "ready_inv (reconnect_cont True (c\<lparr>pending := ts\<rparr>))"
    by (simp add: ready_inv_def reconnect_cont_same)
  moreover from ts have "resume_only (reconnect_cont True (c\<lparr>pending := ts\<rparr>))"
    by (simp add: resume_only_def reconnect_cont_same)
  ultimately show ?thesis using Cons x by simp
qed

lemma heartbeatTick_inv:
  "ready_inv c \<Longrightarrow> ready_inv (heartbeatTick e c)"
  "resume_only c \<Longrightarrow> resume_only (heartbeatTick e c)"
  by (simp_all add: heartbeatTick_def ready_inv_def resume_only_def method_defs Let_def)

lemma identify_inv:
  "ready_inv (identify force e c)"
  "resume_only c \<Longrightarrow> resume_only (identify force e c)"
  by (simp_all add: identify_def ready_inv_def resume_only_def method_defs Let_def split_def
      split: option.split)

lemma presenceUpdate_inv:
  "ready_inv c \<Longrightarrow> ready_inv (presenceUpdate e p c)"
  "resume_only c \<Longrightarrow> resume_only (presenceUpdate e p c)"
  by (simp_all add: presenceUpdate_def ready_inv_def resume_only_def method_defs Let_def
      split_def)

lemma step_inv:
  assumes "ready_inv c" "resume_only c" "\<not> excepted c ev"
  shows "ready_inv (step c (e, ev)) \<and> resume_only (step c (e, ev))"
proof (cases ev)
  case (EvMessage m)
  with assms messageAction_inv [of c m e] show ?thesis by simp
next
  case EvAwaitDone
  with assms await_inv [of c e] show ?thesis by simp
next
  case (EvClose code reason)
  with assms show ?thesis by (simp add: handleWsClose_inv)
next
  case EvTick
  with assms show ?thesis by (simp add: heartbeatTick_inv)
next
  case (EvIdentify force)
  with assms show ?thesis by (simp add: identify_inv)
next
  case (EvPresenceUpdate p)
  with assms show ?thesis by (simp add: presenceUpdate_inv)
qed (use assms in \<open>simp_all add: ready_inv_def resume_only_def method_defs Let_def\<close>)

lemma run_inv:
  "ready_inv c \<Longrightarrow> resume_only c \<Longrightarrow> run_ok c evs \<Longrightarrow>
     ready_inv (run c evs) \<and> resume_only (run c evs)"
proof (induction evs arbitrary: c)
  case Nil
  then show ?case by (simp add: run_def)
next
  case (Cons x evs)
  obtain e ev where x: "x = (e, ev)" by (cases x)
  from Cons.prems x have ok: "\<not> excepted c ev" and rest: "run_ok (step c (e, ev)) evs"
    by simp_all
  from step_inv [OF Cons.prems(1,2) ok]
  have "ready_inv (step c (e, ev))" and "resume_only (step c (e, ev))" by simp_all
  from Cons.IH [OF this rest] show ?case by (simp add: run_def x)
qed

text \<open>
  C6, as the claim states it, fails: the concrete session is in the status \<open>Ready\<close> with
  the session \<open>abc\<close>; a session-invalid message with the payload \<open>false\<close> then leaves the
  status \<open>Ready\<close> and the session identifier empty.
\<close>

theorem ready_without_session_counterexample:
  "status (run ex_new ex_session) = Ready \<and>
   sessionId (run ex_new ex_session) = Some ''abc'' \<and>
   status (run ex_new (ex_session @ [(ex_env 50, EvMessage ex_invalid)])) = Ready \<and>
   sessionId (run ex_new (ex_session @ [(ex_env 50, EvMessage ex_invalid)])) = Some ''''"
  by (simp add: ex_eval ex_msgs)

text \<open>
  C6, amended: in every state that a new connector reaches by operations, timer ticks,
  transport notifications and inbound messages, the status \<open>Ready\<close> implies a non-empty
  session identifier, provided that the run contains none of these three messages: a
  session-invalid message with a falsy payload received in the status \<open>Ready\<close>, a
  RESUMED dispatch received while the session identifier is empty, and a READY dispatch
  whose session id is empty or missing.
\<close>

theorem ready_has_session_unless_excepted:
  assumes "run_ok (new_connector i opts h) evs"
  shows "ready_inv (run (new_connector i opts h) evs)"
proof -
  have "ready_inv (new_connector i opts h)" "resume_only (new_connector i opts h)"
    by (simp_all add: ready_inv_def resume_only_def new_connector_def)
  from run_inv [OF this assms] show ?thesis by simp
qed

text \<open>The amended C6 at the concrete session.\<close>

theorem ready_has_session_unless_excepted_witness:
  "run_ok (new_connector 0 ex_options ex_heap) ex_session \<and>
   status (run (new_connector 0 ex_options ex_heap) ex_session) = Ready \<and>
   truthy_str (sessionId (run (new_connector 0 ex_options ex_heap) ex_session))"
proof -
  have ok: "run_ok (new_connector 0 ex_options ex_heap) ex_session"
    by (simp add: ex_eval excepted_def)
  have st: "status (run (new_connector 0 ex_options ex_heap) ex_session) = Ready"
    by (simp add: ex_eval)
  from ready_has_session_unless_excepted [OF ok] st ok show ?thesis
    by (simp add: ready_inv_def)
qed

subsection \<open>Presence payloads\<close>

lemma checkActivities_ex:
  "checkActivities 0 ex_heap [0, Suc 0] =
     (ex_heap(0 := \<lparr>a_name = None, a_type = Some 1, a_url = Some ''https://a''\<rparr>), [Suc 0])"
  by (simp add: checkActivities.simps [of 0] checkActivities.simps [of "Suc 0"] ex_heap_def
      truthy_str_def splice_def Let_def)

lemma checkPresenceData_ex:
  "checkPresenceData (ex_env n) ex_heap ex_presence =
     (ex_heap(0 := \<lparr>a_name = None, a_type = Some 1, a_url = Some ''https://a''\<rparr>),
      \<lparr>p_status = Some ''online'', p_activities = Some [Suc 0], p_afk = Some False,
       p_since = Some n\<rparr>)"
  by (simp add: checkPresenceData_def ex_presence_def truthy_str_def Let_def ex_env_def
      checkActivities_ex)

lemma sent_ex:
  "sent (ex_heap(0 := a))
     \<lparr>p_status = st, p_activities = Some [Suc 0], p_afk = af, p_since = si\<rparr> =
     \<lparr>ps_status = st,
      ps_activities = [\<lparr>a_name = None, a_type = None, a_url = Some ''https://b''\<rparr>],
      ps_afk = af, ps_since = si\<rparr>"
  by (simp add: sent_def ex_heap_def)

lemma ex_heaps: "heap ex_ready = ex_heap" "heap ex_new = ex_heap"
  by (simp_all add: ex_eval)

text \<open>
  C7 does not hold of the code: a presence with the two activities
  \<^verbatim>\<open>{url: "https://a"}\<close> and \<^verbatim>\<open>{url: "https://b"}\<close>, neither with a name or a type,
  goes out with the second one still in the list, without a name and without a type. The
  loop removes the first activity from the array it iterates over, and the iterator then
  steps past the second. It is so for \<^verbatim>\<open>presenceUpdate\<close> and for \<^verbatim>\<open>identify\<close> with this
  presence as the initial presence.
\<close>

theorem presence_nameless_kept:
  "a_name (ex_heap 1) = None \<and> a_type (ex_heap 1) = None \<and>
   emitted ex_ready (presenceUpdate (ex_env 50) ex_presence ex_ready) =
     [WsSend (OutPresenceUpdate
        \<lparr>ps_status = Some ''online'',
         ps_activities = [\<lparr>a_name = None, a_type = None, a_url = Some ''https://b''\<rparr>],
         ps_afk = Some False, ps_since = Some 50\<rparr>)] \<and>
   emitted (ex_new\<lparr>options := ex_options\<lparr>opt_initialPresence := Some ex_presence\<rparr>\<rparr>)
     (identify False (ex_env 30)
        (ex_new\<lparr>options := ex_options\<lparr>opt_initialPresence := Some ex_presence\<rparr>\<rparr>)) =
     [ClientDebug (DbgIdentifying 0), EmitStateChange Identifying,
      WsSend (OutIdentify
        \<lparr>i_token = ''token'', i_os = ''linux'', i_browser = ''CloudStorm'',
         i_device = ''CloudStorm'', i_large_threshold = None, i_shard = (0, 1), i_intents = 0,
         i_presence = Some
           \<lparr>ps_status = Some ''online'',
            ps_activities = [\<lparr>a_name = None, a_type = None, a_url = Some ''https://b''\<rparr>],
            ps_afk = Some False, ps_since = Some 30\<rparr>\<rparr>)]"
proof -
  have b: "a_name (ex_heap 1) = None \<and> a_type (ex_heap 1) = None"
    by (simp add: ex_heap_def)
  have upd: "emitted ex_ready (presenceUpdate (ex_env 50) ex_presence ex_ready) =
     [WsSend (OutPresenceUpdate
        \<lparr>ps_status = Some ''online'',
         ps_activities = [\<lparr>a_name = None, a_type = None, a_url = Some ''https://b''\<rparr>],
         ps_afk = Some False, ps_since = Some 50\<rparr>)]"
    by (simp add: presenceUpdate_def ex_heaps checkPresenceData_ex sent_ex emitted_def emit_def)
  have new: "sessionId ex_new = None" "shard_id ex_new = 0" "out ex_new = []"
    by (simp_all add: ex_new_def new_connector_def)
  have idn:
    "emitted (ex_new\<lparr>options := ex_options\<lparr>opt_initialPresence := Some ex_presence\<rparr>\<rparr>)
     (identify False (ex_env 30)
        (ex_new\<lparr>options := ex_options\<lparr>opt_initialPresence := Some ex_presence\<rparr>\<rparr>)) =
     [ClientDebug (DbgIdentifying 0), EmitStateChange Identifying,
      WsSend (OutIdentify
        \<lparr>i_token = ''token'', i_os = ''linux'', i_browser = ''CloudStorm'',
         i_device = ''CloudStorm'', i_large_threshold = None, i_shard = (0, 1), i_intents = 0,
         i_presence = Some
           \<lparr>ps_status = Some ''online'',
            ps_activities = [\<lparr>a_name = None, a_type = None, a_url = Some ''https://b''\<rparr>],
            ps_afk = Some False, ps_since = Some 30\<rparr>\<rparr>)]"
    by (simp add: identify_def ex_heaps new checkPresenceData_ex sent_ex emitted_def emit_def
        truthy_str_def Let_def ex_options_def, simp add: ex_env_def)
  from b upd idn show ?thesis by simp
qed

subsection \<open>Connecting while a disconnect is in flight\<close>











end
